theory Spec2Isabelle
  imports Main "HOL-Library.Sublist" "HOL-Library.AList"
begin

section \<open>The Ubidots API client (\<^verbatim>\<open>ubidots/apiclient.py\<close>)\<close>

text \<open>
  The module is Python 2 (\<^verbatim>\<open>basestring\<close>, \<^verbatim>\<open>dict.items() + dict.items()\<close>):
  \<^verbatim>\<open>map(f, xs)\<close> is eager and applies \<^verbatim>\<open>f\<close> to every element in order, and
  \<^verbatim>\<open>int\<close> and \<^verbatim>\<open>long\<close> are different types.

  Every method becomes a function that takes the state of the client and returns a result
  together with the new state. A raised exception is \<open>Inl\<close> of an \<open>error\<close>; the state that
  comes with it is the state at the moment of the raise. The HTTP library is a parameter: a
  function from the requests sent so far and the present request to a response.
\<close>

subsection \<open>Python values\<close>

text \<open>
  The values a caller can pass and a JSON body can decode to. \<open>PFloat m e\<close> is the float
  \<open>m * 2 ^ e\<close>; dictionaries have string keys and are association lists.
\<close>

datatype pyval =
    PNone
  | PBool bool
  | PInt int
  | PLong int
  | PFloat int int
  | PStr string
  | PList "pyval list"
  | PDict "(string \<times> pyval) list"

type_synonym pydict = "(string \<times> pyval) list"

datatype error =
    UbidotsError string
  | UbidotsError400 string
  | UbidotsError500 string
  | UbidotsInvalidInputError string
  | TypeError
  | KeyError string
  | AttributeError string
  | ValueError
  | UnboundLocalError
  | RequestException

text \<open>The message an exception carries (\<^verbatim>\<open>str(e)\<close>) where the source gives one.\<close>

fun message :: "error \<Rightarrow> string" where
  "message (UbidotsError m) = m"
| "message (UbidotsError400 m) = m"
| "message (UbidotsError500 m) = m"
| "message (UbidotsInvalidInputError m) = m"
| "message (KeyError k) = k"
| "message (AttributeError a) = a"
| "message _ = []"

text \<open>\<^verbatim>\<open>bool(v)\<close>, as \<^verbatim>\<open>if v\<close> and \<^verbatim>\<open>not v\<close> use it.\<close>

fun truthy :: "pyval \<Rightarrow> bool" where
  "truthy PNone = False"
| "truthy (PBool b) = b"
| "truthy (PInt n) = (n \<noteq> 0)"
| "truthy (PLong n) = (n \<noteq> 0)"
| "truthy (PFloat m e) = (m \<noteq> 0)"
| "truthy (PStr s) = (s \<noteq> [])"
| "truthy (PList xs) = (xs \<noteq> [])"
| "truthy (PDict d) = (d \<noteq> [])"

text \<open>\<^verbatim>\<open>isinstance(v, basestring)\<close> and \<^verbatim>\<open>isinstance(v, int)\<close> (\<^verbatim>\<open>bool\<close> is a subclass
  of \<^verbatim>\<open>int\<close>, \<^verbatim>\<open>long\<close> is not).\<close>

fun is_basestring :: "pyval \<Rightarrow> bool" where
  "is_basestring (PStr s) = True"
| "is_basestring _ = False"

fun is_int :: "pyval \<Rightarrow> bool" where
  "is_int (PInt n) = True"
| "is_int (PBool b) = True"
| "is_int _ = False"

text \<open>\<^verbatim>\<open>key in obj\<close> for a string key: key membership in a dictionary, element membership
  in a list, substring test on a string, \<^verbatim>\<open>TypeError\<close> on a value that is not iterable.\<close>

fun py_in :: "string \<Rightarrow> pyval \<Rightarrow> error + bool" where
  "py_in k (PDict d) = Inr (k \<in> fst ` set d)"
| "py_in k (PList xs) = Inr (PStr k \<in> set xs)"
| "py_in k (PStr s) = Inr (sublist k s)"
| "py_in k _ = Inl TypeError"

text \<open>\<^verbatim>\<open>obj[key]\<close> for a string key.\<close>

fun py_getitem :: "pyval \<Rightarrow> string \<Rightarrow> error + pyval" where
  "py_getitem (PDict d) k = (case map_of d k of None \<Rightarrow> Inl (KeyError k) | Some v \<Rightarrow> Inr v)"
| "py_getitem _ k = Inl TypeError"

text \<open>\<^verbatim>\<open>for e in obj\<close>: the elements of a list, the keys of a dictionary, the characters
  of a string.\<close>

fun py_iter :: "pyval \<Rightarrow> error + pyval list" where
  "py_iter (PList xs) = Inr xs"
| "py_iter (PDict d) = Inr (map (\<lambda>kv. PStr (fst kv)) d)"
| "py_iter (PStr s) = Inr (map (\<lambda>c. PStr [c]) s)"
| "py_iter _ = Inl TypeError"

text \<open>\<^verbatim>\<open>'prefix' + v\<close>: string concatenation, \<^verbatim>\<open>TypeError\<close> unless \<^verbatim>\<open>v\<close> is a string.\<close>

fun str_concat :: "string \<Rightarrow> pyval \<Rightarrow> error + string" where
  "str_concat p (PStr s) = Inr (p @ s)"
| "str_concat p _ = Inl TypeError"

subsection \<open>The transport\<close>

datatype http_method = GET | POST | DELETE

text \<open>
  One call of \<^verbatim>\<open>requests.get\<close>, \<^verbatim>\<open>requests.post\<close> or \<^verbatim>\<open>requests.delete\<close>. \<open>data\<close> is
  the value whose \<^verbatim>\<open>json.dumps\<close> encoding is the request body, \<open>None\<close> when the call passes
  no \<^verbatim>\<open>data\<close>.
\<close>

record request =
  meth :: http_method
  url :: string
  headers :: pydict
  data :: "pyval option"

text \<open>
  A response object: \<^verbatim>\<open>status_code\<close>; \<^verbatim>\<open>text\<close>, where \<open>None\<close> stands for an access that
  raises; \<^verbatim>\<open>json()\<close>, where \<open>None\<close> stands for a body that does not decode.
\<close>

record response =
  status_code :: int
  body_text :: "string option"
  decoded :: "pyval option"

type_synonym transport = "request list \<Rightarrow> request \<Rightarrow> response"

definition json :: "response \<Rightarrow> error + pyval" where
  "json r = (case decoded r of None \<Rightarrow> Inl ValueError | Some v \<Rightarrow> Inr v)"

subsection \<open>The state of a client\<close>

text \<open>
  The attributes of the one \<^verbatim>\<open>ServerBridge\<close> of a client, and \<open>sent\<close>, the requests handed
  to the transport so far, oldest first. \<open>token_header = None\<close> is the attribute
  \<^verbatim>\<open>_token_header\<close> not being set yet.
\<close>

record st =
  base_url :: string
  token :: pyval
  apikey :: pyval
  apikey_header :: pydict
  token_header :: "pydict option"
  sent :: "request list"

type_synonym 'a res = "(error + 'a) \<times> st"

definition BASE_URL :: string where
  "BASE_URL = ''http://app.ubidots.com/api/''"

definition send :: "transport \<Rightarrow> request \<Rightarrow> st \<Rightarrow> response \<times> st" where
  "send srv rq s = (srv (sent s) rq, s\<lparr>sent := sent s @ [rq]\<rparr>)"

subsection \<open>Error objects and the decorators\<close>

definition create_exception_object :: "int \<Rightarrow> string \<Rightarrow> error" where
  "create_exception_object code body =
     (if code = 500 then UbidotsError500 ''An Internal Server Error Occurred.''
      else if code = 400 then UbidotsError400 (''Your request is invalid:'' @ [CHR 0x0A] @ ''  '' @ body)
      else UbidotsError body)"

definition raise_informative_exception ::
  "int list \<Rightarrow> (st \<Rightarrow> response res) \<Rightarrow> st \<Rightarrow> response res" where
  "raise_informative_exception list_of_error_codes fn s =
     (case fn s of
        (Inl e, s') \<Rightarrow> (Inl e, s')
      | (Inr response, s') \<Rightarrow>
          if status_code response \<in> set list_of_error_codes then
            (let body = (case body_text response of Some t \<Rightarrow> t | None \<Rightarrow> ''No body found'')
             in (Inl (create_exception_object (status_code response) body), s'))
          else (Inr response, s'))"

text \<open>
  The loop of \<^verbatim>\<open>try_again\<close>: \<open>n\<close> iterations are left, \<open>prev\<close> is the variable
  \<^verbatim>\<open>response\<close> (unbound before the first iteration), \<open>init\<close> is \<^verbatim>\<open>self.initialize\<close>.
\<close>

fun try_again_loop ::
  "(st \<Rightarrow> unit res) \<Rightarrow> int list \<Rightarrow> nat \<Rightarrow> (st \<Rightarrow> response res) \<Rightarrow> response option \<Rightarrow> st
     \<Rightarrow> response res" where
  "try_again_loop init codes 0 fn prev s =
     (case prev of None \<Rightarrow> (Inl UnboundLocalError, s) | Some response \<Rightarrow> (Inr response, s))"
| "try_again_loop init codes (Suc n) fn prev s =
     (case fn s of
        (Inl e, s1) \<Rightarrow> (Inl e, s1)
      | (Inr response, s1) \<Rightarrow>
          if status_code response \<notin> set codes then (Inr response, s1)
          else (case init s1 of
                  (Inl e, s2) \<Rightarrow> (Inl e, s2)
                | (Inr u, s2) \<Rightarrow> try_again_loop init codes n fn (Some response) s2))"

definition try_again ::
  "(st \<Rightarrow> unit res) \<Rightarrow> int list \<Rightarrow> nat \<Rightarrow> (st \<Rightarrow> response res) \<Rightarrow> st \<Rightarrow> response res" where
  "try_again init list_of_error_codes number_of_tries fn s =
     try_again_loop init list_of_error_codes number_of_tries fn None s"

subsection \<open>\<^verbatim>\<open>ServerBridge\<close>\<close>

definition get_custom_headers :: pydict where
  "get_custom_headers = [(''content-type'', PStr ''application/json'')]"

text \<open>\<^verbatim>\<open>headers[key] = val\<close> for every item of every dictionary, in order.\<close>

definition transform_a_list_of_dictionaries_to_a_dictionary :: "pydict list \<Rightarrow> pydict" where
  "transform_a_list_of_dictionaries_to_a_dictionary list_of_dicts =
     foldl (\<lambda>hs dictionary. foldl (\<lambda>h kv. AList.update (fst kv) (snd kv) h) hs dictionary)
       [] list_of_dicts"

text \<open>\<^verbatim>\<open>dict(items)\<close>: a later item replaces an earlier one with the same key.\<close>

definition dict_of_items :: "(string \<times> pyval) list \<Rightarrow> pydict" where
  "dict_of_items items = foldl (\<lambda>h kv. AList.update (fst kv) (snd kv) h) [] items"

definition prepare_headers :: "pydict list \<Rightarrow> pydict \<Rightarrow> pydict" where
  "prepare_headers args kwargs =
     (let hs = transform_a_list_of_dictionaries_to_a_dictionary args
      in dict_of_items (hs @ get_custom_headers @ kwargs))"

definition post_with_apikey_raw :: "transport \<Rightarrow> string \<Rightarrow> st \<Rightarrow> response res" where
  "post_with_apikey_raw srv path s =
     (let hs = prepare_headers [apikey_header s] [];
          (response, s') = send srv \<lparr>meth = POST, url = base_url s @ path, headers = hs, data = None\<rparr> s
      in (Inr response, s'))"

definition post_with_apikey :: "transport \<Rightarrow> string \<Rightarrow> st \<Rightarrow> response res" where
  "post_with_apikey srv path =
     raise_informative_exception [400, 500, 401, 403] (post_with_apikey_raw srv path)"

definition get_token :: "transport \<Rightarrow> st \<Rightarrow> unit res" where
  "get_token srv s =
     (case post_with_apikey srv ''auth/token'' s of
        (Inl e, s') \<Rightarrow> (Inl e, s')
      | (Inr response, s') \<Rightarrow>
          (case json response of
             Inl e \<Rightarrow> (Inl e, s')
           | Inr j \<Rightarrow>
               (case py_getitem j ''token'' of
                  Inl e \<Rightarrow> (Inl e, s')
                | Inr t \<Rightarrow> (Inr (), s'\<lparr>token := t, token_header := Some [(''X-AUTH-TOKEN'', t)]\<rparr>))))"

definition initialize :: "transport \<Rightarrow> st \<Rightarrow> unit res" where
  "initialize srv s = get_token srv s"

text \<open>\<^verbatim>\<open>ServerBridge(apikey)\<close>, with the transport's earlier traffic \<open>log\<close>.\<close>

definition ServerBridge :: "transport \<Rightarrow> pyval \<Rightarrow> request list \<Rightarrow> unit res" where
  "ServerBridge srv key log =
     initialize srv \<lparr>base_url = BASE_URL, token = PNone, apikey = key,
                     apikey_header = [(''X-UBIDOTS-APIKEY'', key)], token_header = None,
                     sent = log\<rparr>"

text \<open>The undecorated bodies of \<^verbatim>\<open>get\<close>, \<^verbatim>\<open>post\<close> and \<^verbatim>\<open>delete\<close>.\<close>

definition get_raw :: "transport \<Rightarrow> string \<Rightarrow> st \<Rightarrow> response res" where
  "get_raw srv path s =
     (case token_header s of
        None \<Rightarrow> (Inl (AttributeError ''_token_header''), s)
      | Some th \<Rightarrow>
          (let hs = prepare_headers [th] [];
               (response, s') = send srv \<lparr>meth = GET, url = base_url s @ path, headers = hs, data = None\<rparr> s
           in (Inr response, s')))"

definition post_raw :: "transport \<Rightarrow> string \<Rightarrow> pyval \<Rightarrow> st \<Rightarrow> response res" where
  "post_raw srv path d s =
     (case token_header s of
        None \<Rightarrow> (Inl (AttributeError ''_token_header''), s)
      | Some th \<Rightarrow>
          (let hs = prepare_headers [th] [];
               (response, s') = send srv \<lparr>meth = POST, url = base_url s @ path, headers = hs, data = Some d\<rparr> s
           in (Inr response, s')))"

definition delete_raw :: "transport \<Rightarrow> string \<Rightarrow> st \<Rightarrow> response res" where
  "delete_raw srv path s =
     (case token_header s of
        None \<Rightarrow> (Inl (AttributeError ''_token_header''), s)
      | Some th \<Rightarrow>
          (let hs = prepare_headers [th] [];
               (response, s') = send srv \<lparr>meth = DELETE, url = base_url s @ path, headers = hs, data = None\<rparr> s
           in (Inr response, s')))"

definition get :: "transport \<Rightarrow> string \<Rightarrow> st \<Rightarrow> response res" where
  "get srv path =
     try_again (initialize srv) [403, 401] 2
       (raise_informative_exception [400, 500] (get_raw srv path))"

definition post :: "transport \<Rightarrow> string \<Rightarrow> pyval \<Rightarrow> st \<Rightarrow> response res" where
  "post srv path d =
     try_again (initialize srv) [403, 401] 2
       (raise_informative_exception [400, 500] (post_raw srv path d))"

definition delete :: "transport \<Rightarrow> string \<Rightarrow> st \<Rightarrow> response res" where
  "delete srv path =
     try_again (initialize srv) [403, 401] 2
       (raise_informative_exception [400, 500] (delete_raw srv path))"

text \<open>\<^verbatim>\<open>get_with_url\<close> carries no decorator. The transport rejects a URL that is not a
  string.\<close>

definition get_with_url :: "transport \<Rightarrow> pyval \<Rightarrow> st \<Rightarrow> response res" where
  "get_with_url srv u s =
     (case token_header s of
        None \<Rightarrow> (Inl (AttributeError ''_token_header''), s)
      | Some th \<Rightarrow>
          (let hs = prepare_headers [th] []
           in (case u of
                 PStr a \<Rightarrow>
                   (let (response, s') = send srv \<lparr>meth = GET, url = a, headers = hs, data = None\<rparr> s
                    in (Inr response, s'))
               | _ \<Rightarrow> (Inl RequestException, s))))"

subsection \<open>Sequencing\<close>

definition lift :: "error + 'a \<Rightarrow> st \<Rightarrow> 'a res" where
  "lift x s = (x, s)"

definition then_do :: "(st \<Rightarrow> 'a res) \<Rightarrow> ('a \<Rightarrow> st \<Rightarrow> 'b res) \<Rightarrow> st \<Rightarrow> 'b res" where
  "then_do m f s = (case m s of (Inl e, s') \<Rightarrow> (Inl e, s') | (Inr x, s') \<Rightarrow> f x s')"

text \<open>A \<^verbatim>\<open>for\<close> loop that appends one result per element and stops at the first raise.\<close>

fun for_each :: "('a \<Rightarrow> st \<Rightarrow> 'b res) \<Rightarrow> 'a list \<Rightarrow> st \<Rightarrow> ('b list) res" where
  "for_each f [] s = (Inr [], s)"
| "for_each f (x # xs) s =
     (case f x s of
        (Inl e, s') \<Rightarrow> (Inl e, s')
      | (Inr y, s') \<Rightarrow>
          (case for_each f xs s' of
             (Inl e, s'') \<Rightarrow> (Inl e, s'')
           | (Inr ys, s'') \<Rightarrow> (Inr (y # ys), s'')))"

subsection \<open>\<^verbatim>\<open>validate_input\<close>\<close>

text \<open>The two types the decorator is used with, and \<^verbatim>\<open>str(type)\<close>.\<close>

datatype pytype = Dict_t | List_t

fun isinstance :: "pyval \<Rightarrow> pytype \<Rightarrow> bool" where
  "isinstance (PDict d) Dict_t = True"
| "isinstance (PList xs) List_t = True"
| "isinstance _ _ = False"

fun str_of_type :: "pytype \<Rightarrow> string" where
  "str_of_type Dict_t = ''<type '' @ [CHR 0x27] @ ''dict'' @ [CHR 0x27] @ ''>''"
| "str_of_type List_t = ''<type '' @ [CHR 0x27] @ ''list'' @ [CHR 0x27] @ ''>''"

definition missing_key :: "string \<Rightarrow> error" where
  "missing_key k = UbidotsInvalidInputError (''Key '' @ [CHR 0x22] @ k @ [CHR 0x22] @ '' is missing'')"

fun check_keys :: "string list \<Rightarrow> pyval \<Rightarrow> error + unit" where
  "check_keys [] obj = Inr ()"
| "check_keys (k # ks) obj =
     (case py_in k obj of
        Inl e \<Rightarrow> Inl e
      | Inr present \<Rightarrow> if \<not> present then Inl (missing_key k) else check_keys ks obj)"

text \<open>\<^verbatim>\<open>map(check_keys, args[0])\<close>: every element in order, until one raises.\<close>

fun map_check :: "(pyval \<Rightarrow> error + unit) \<Rightarrow> pyval list \<Rightarrow> error + unit" where
  "map_check f [] = Inr ()"
| "map_check f (x # xs) = (case f x of Inl e \<Rightarrow> Inl e | Inr u \<Rightarrow> map_check f xs)"

text \<open>The checks of the wrapper, before it calls the wrapped method.\<close>

definition validate_args :: "pytype \<Rightarrow> string list \<Rightarrow> pyval \<Rightarrow> error + unit" where
  "validate_args ty required_keys arg =
     (if \<not> isinstance arg ty then
        Inl (UbidotsInvalidInputError (''Invalid argument type. Required: '' @ str_of_type ty))
      else (case arg of
              PList xs \<Rightarrow> map_check (check_keys required_keys) xs
            | PDict d \<Rightarrow> check_keys required_keys arg
            | _ \<Rightarrow> Inr ()))"

definition validate_input ::
  "pytype \<Rightarrow> string list \<Rightarrow> (pyval \<Rightarrow> st \<Rightarrow> 'a res) \<Rightarrow> pyval \<Rightarrow> st \<Rightarrow> 'a res" where
  "validate_input ty required_keys fn arg s =
     (case validate_args ty required_keys arg of
        Inl e \<Rightarrow> (Inl e, s)
      | Inr u \<Rightarrow> fn arg s)"

subsection \<open>Resources\<close>

text \<open>
  An \<^verbatim>\<open>ApiObject\<close> is its raw payload: \<^verbatim>\<open>_from_raw_to_attributes\<close> sets one attribute per
  item, so reading a data attribute is a lookup in \<open>raw\<close>. The instance attributes come
  before the methods of the class: a payload with a key \<^verbatim>\<open>bridge\<close> or \<^verbatim>\<open>api\<close> replaces the
  attribute of that name, and a later call through it finds a JSON value in place of the
  bridge or the client; a payload with a key named like a method replaces that method, and
  calling it raises \<^verbatim>\<open>TypeError\<close>, since no JSON value is callable. Payloads with the keys
  \<^verbatim>\<open>__class__\<close> or \<^verbatim>\<open>__dict__\<close>, which \<^verbatim>\<open>setattr\<close> does not store as plain attributes, are
  outside this model.
\<close>

record apiobject =
  raw :: pydict

record variable = apiobject +
  datasource :: apiobject

definition ApiObject :: "pyval \<Rightarrow> error + apiobject" where
  "ApiObject raw_data =
     (case raw_data of PDict d \<Rightarrow> Inr \<lparr>raw = d\<rparr> | _ \<Rightarrow> Inl (AttributeError ''items''))"

definition getattr :: "'a apiobject_scheme \<Rightarrow> string \<Rightarrow> error + pyval" where
  "getattr ob name = (case map_of (raw ob) name of None \<Rightarrow> Inl (AttributeError name) | Some v \<Rightarrow> Inr v)"

text \<open>\<^verbatim>\<open>self.name(...)\<close> for a method \<^verbatim>\<open>name\<close> of the class.\<close>

definition self_method :: "'a apiobject_scheme \<Rightarrow> string \<Rightarrow> error + unit" where
  "self_method ob name = (if name \<in> fst ` set (raw ob) then Inl TypeError else Inr ())"

text \<open>\<^verbatim>\<open>self.bridge.post\<close> and \<^verbatim>\<open>self.bridge.delete\<close>: no JSON value has an attribute of
  these names.\<close>

definition self_bridge :: "'a apiobject_scheme \<Rightarrow> string \<Rightarrow> error + unit" where
  "self_bridge ob method =
     (if ''bridge'' \<in> fst ` set (raw ob) then Inl (AttributeError method) else Inr ())"

text \<open>\<^verbatim>\<open>self.bridge.get\<close>: \<open>True\<close> is the method of the bridge; \<open>False\<close> is \<^verbatim>\<open>dict.get\<close> of a
  dictionary that the payload has put in the place of the bridge, whose result (a JSON value
  or \<^verbatim>\<open>None\<close>) has no \<^verbatim>\<open>json\<close> attribute.\<close>

definition self_bridge_get :: "'a apiobject_scheme \<Rightarrow> error + bool" where
  "self_bridge_get ob =
     (case map_of (raw ob) ''bridge'' of
        None \<Rightarrow> Inr True
      | Some (PDict d) \<Rightarrow> Inr False
      | Some _ \<Rightarrow> Inl (AttributeError ''get''))"

definition self_api :: "'a apiobject_scheme \<Rightarrow> string \<Rightarrow> error + unit" where
  "self_api ob method =
     (if ''api'' \<in> fst ` set (raw ob) then Inl (AttributeError method) else Inr ())"

definition Datasource :: "pyval \<Rightarrow> error + apiobject" where
  "Datasource raw_data = ApiObject raw_data"

subsection \<open>\<^verbatim>\<open>ApiClient.get_datasource\<close> and the construction of a \<^verbatim>\<open>Variable\<close>\<close>

definition ApiClient_get_datasource :: "transport \<Rightarrow> pyval \<Rightarrow> pyval \<Rightarrow> st \<Rightarrow> apiobject res" where
  "ApiClient_get_datasource srv ident u s =
     (if \<not> truthy ident \<and> \<not> truthy u then
        (Inl (UbidotsInvalidInputError ''id or url required''), s)
      else if truthy ident then
        (if \<not> is_basestring ident then
           (Inl (UbidotsInvalidInputError
                   (''Argument '' @ [CHR 0x22] @ ''id'' @ [CHR 0x22] @ '' must be a string.'')), s)
         else
           then_do (lift (str_concat ''datasources/'' ident)) (\<lambda>path.
           then_do (get srv path) (\<lambda>r.
           then_do (lift (json r)) (\<lambda>raw_datasource.
           lift (Datasource raw_datasource)))) s)
      else if truthy u then
        (if \<not> is_basestring ident then
           (Inl (UbidotsInvalidInputError
                   (''Argument '' @ [CHR 0x22] @ ''url'' @ [CHR 0x22] @ '' must be a string.'')), s)
         else
           then_do (get_with_url srv u) (\<lambda>r.
           then_do (lift (json r)) (\<lambda>raw_datasource.
           lift (Datasource raw_datasource))) s)
      else (Inl UnboundLocalError, s))"

text \<open>\<^verbatim>\<open>Variable._get_datasource\<close>; \<open>kw\<close> is the keyword argument \<^verbatim>\<open>datasource\<close>, and a
  \<^verbatim>\<open>Datasource\<close> object is true.\<close>

definition Variable_get_datasource ::
  "transport \<Rightarrow> apiobject \<Rightarrow> apiobject option \<Rightarrow> st \<Rightarrow> apiobject res" where
  "Variable_get_datasource srv self kw s =
     (case kw of
        Some ds \<Rightarrow> (Inr ds, s)
      | None \<Rightarrow>
          then_do (lift (self_api self ''get_datasource'')) (\<lambda>_.
          then_do (lift (getattr self ''datasource'')) (\<lambda>d.
          then_do (lift (py_getitem d ''url'')) (\<lambda>u.
          ApiClient_get_datasource srv PNone u))) s)"

definition Variable :: "transport \<Rightarrow> pyval \<Rightarrow> apiobject option \<Rightarrow> st \<Rightarrow> variable res" where
  "Variable srv raw_data kw =
     then_do (lift (ApiObject raw_data)) (\<lambda>self.
     then_do (lift (self_method self ''_get_datasource'')) (\<lambda>_.
     then_do (Variable_get_datasource srv self kw) (\<lambda>ds.
     lift (Inr \<lparr>raw = raw self, datasource = ds\<rparr>))))"

subsection \<open>\<^verbatim>\<open>ApiClient\<close>\<close>

definition transform_to_datasource_objects :: "pyval \<Rightarrow> st \<Rightarrow> (apiobject list) res" where
  "transform_to_datasource_objects raw_datasources =
     then_do (lift (py_iter raw_datasources)) (for_each (\<lambda>ds. lift (Datasource ds)))"

definition transform_to_variable_objects :: "transport \<Rightarrow> pyval \<Rightarrow> st \<Rightarrow> (variable list) res" where
  "transform_to_variable_objects srv raw_variables =
     then_do (lift (py_iter raw_variables)) (for_each (\<lambda>v. Variable srv v None))"

text \<open>The attributes an \<^verbatim>\<open>ApiClient\<close> has: the methods of the class and \<^verbatim>\<open>bridge\<close>.\<close>

definition ApiClient_attributes :: "string list" where
  "ApiClient_attributes =
     [''__init__'', ''get_datasources'', ''get_datasource'', ''create_datasource'',
      ''get_variables'', ''get_variable'', ''save_collection'',
      ''_transform_to_datasource_objects'', ''_transform_to_variable_objects'', ''bridge'']"

definition ApiClient_get_datasources :: "transport \<Rightarrow> st \<Rightarrow> (apiobject list) res" where
  "ApiClient_get_datasources srv =
     then_do (get srv ''datasources'') (\<lambda>r.
     then_do (lift (json r)) (\<lambda>raw_datasources.
     transform_to_datasource_objects raw_datasources))"

text \<open>\<^verbatim>\<open>get_variables\<close> calls \<^verbatim>\<open>self.transform_to_variables_objects\<close>; the lookup of that
  name on the client comes after the response is decoded.\<close>

definition ApiClient_get_variables :: "transport \<Rightarrow> st \<Rightarrow> (variable list) res" where
  "ApiClient_get_variables srv =
     then_do (get srv ''variables'') (\<lambda>r.
     then_do (lift (json r)) (\<lambda>raw_variables.
     if ''transform_to_variables_objects'' \<in> set ApiClient_attributes
     then transform_to_variable_objects srv raw_variables
     else lift (Inl (AttributeError ''transform_to_variables_objects''))))"

definition ApiClient_create_datasource :: "transport \<Rightarrow> pyval \<Rightarrow> st \<Rightarrow> apiobject res" where
  "ApiClient_create_datasource srv =
     validate_input Dict_t [''name''] (\<lambda>d.
       then_do (post srv ''datasources/'' d) (\<lambda>r.
       then_do (lift (json r)) (\<lambda>raw_datasource.
       lift (Datasource raw_datasource))))"

definition force_suffix :: "bool \<Rightarrow> string" where
  "force_suffix force = (if force then ''?force=true'' else [])"

definition ApiClient_save_collection :: "transport \<Rightarrow> bool \<Rightarrow> pyval \<Rightarrow> st \<Rightarrow> pyval res" where
  "ApiClient_save_collection srv force =
     validate_input List_t [''variable'', ''value''] (\<lambda>d.
       then_do (post srv (''collections/values'' @ force_suffix force) d) (\<lambda>r.
       lift (json r)))"

subsection \<open>Methods of \<^verbatim>\<open>Datasource\<close> and \<^verbatim>\<open>Variable\<close>\<close>

definition Datasource_get_variables :: "transport \<Rightarrow> apiobject \<Rightarrow> st \<Rightarrow> (variable list) res" where
  "Datasource_get_variables srv self =
     then_do (lift (self_method self ''get_variables'')) (\<lambda>_.
     then_do (lift (self_bridge_get self)) (\<lambda>real.
     then_do (lift (getattr self ''id'')) (\<lambda>i.
     then_do (lift (str_concat ''datasources/'' i)) (\<lambda>p.
     if real then
       then_do (get srv (p @ ''/variables'')) (\<lambda>r.
       then_do (lift (self_api self ''_transform_to_variable_objects'')) (\<lambda>_.
       then_do (lift (json r)) (\<lambda>raw_variables.
       transform_to_variable_objects srv raw_variables)))
     else
       then_do (lift (self_api self ''_transform_to_variable_objects'')) (\<lambda>_.
       lift (Inl (AttributeError ''json'')))))))"

definition Datasource_create_variable :: "transport \<Rightarrow> apiobject \<Rightarrow> pyval \<Rightarrow> st \<Rightarrow> variable res" where
  "Datasource_create_variable srv self arg =
     then_do (lift (self_method self ''create_variable'')) (\<lambda>_.
     validate_input Dict_t [''name'', ''unit'', ''icon''] (\<lambda>d.
       then_do (lift (self_bridge self ''post'')) (\<lambda>_.
       then_do (lift (getattr self ''id'')) (\<lambda>i.
       then_do (lift (str_concat ''datasources/'' i)) (\<lambda>p.
       then_do (post srv (p @ ''/variables'') d) (\<lambda>r.
       then_do (lift (json r)) (\<lambda>raw_variable.
       then_do (lift (self_api self ''bridge'')) (\<lambda>_.
       Variable srv raw_variable (Some \<lparr>raw = raw self\<rparr>)))))))) arg)"

text \<open>\<^verbatim>\<open>data.get('timestamp', 0)\<close>.\<close>

definition timestamp_or_zero :: "pyval \<Rightarrow> error + pyval" where
  "timestamp_or_zero d =
     (case d of
        PDict kvs \<Rightarrow> Inr (case map_of kvs ''timestamp'' of None \<Rightarrow> PInt 0 | Some v \<Rightarrow> v)
      | _ \<Rightarrow> Inl (AttributeError ''get''))"

definition Variable_save_value :: "transport \<Rightarrow> variable \<Rightarrow> pyval \<Rightarrow> st \<Rightarrow> pyval res" where
  "Variable_save_value srv self arg =
     then_do (lift (self_method self ''save_value'')) (\<lambda>_.
     validate_input Dict_t [''value''] (\<lambda>d.
       then_do (lift (timestamp_or_zero d)) (\<lambda>t.
       if \<not> is_int t then
         lift (Inl (UbidotsInvalidInputError
                 (''Key '' @ [CHR 0x22] @ ''timestamp'' @ [CHR 0x22] @ '' must point to an int value.'')))
       else
         then_do (lift (self_bridge self ''post'')) (\<lambda>_.
         then_do (lift (getattr self ''id'')) (\<lambda>i.
         then_do (lift (str_concat ''variables/'' i)) (\<lambda>p.
         then_do (post srv (p @ ''/values'') d) (\<lambda>r.
         lift (json r))))))) arg)"

text \<open>\<^verbatim>\<open>all(isinstance(e['timestamp'], int) for e in data)\<close>: it stops at the first element
  that is not an \<^verbatim>\<open>int\<close>, and a lookup that raises ends it.\<close>

fun all_timestamps_int :: "pyval list \<Rightarrow> error + bool" where
  "all_timestamps_int [] = Inr True"
| "all_timestamps_int (e # es) =
     (case py_getitem e ''timestamp'' of
        Inl err \<Rightarrow> Inl err
      | Inr v \<Rightarrow> if is_int v then all_timestamps_int es else Inr False)"

definition Variable_save_values :: "transport \<Rightarrow> variable \<Rightarrow> bool \<Rightarrow> pyval \<Rightarrow> st \<Rightarrow> pyval res" where
  "Variable_save_values srv self force arg =
     then_do (lift (self_method self ''save_values'')) (\<lambda>_.
     validate_input List_t [''key'', ''timestamp''] (\<lambda>d.
       then_do (lift (py_iter d)) (\<lambda>es.
       then_do (lift (all_timestamps_int es)) (\<lambda>ok.
       if \<not> ok then
         lift (Inl (UbidotsInvalidInputError
                 (''Key '' @ [CHR 0x22] @ ''timestamp'' @ [CHR 0x22] @ '' must point to an int value'')))
       else
         then_do (lift (getattr self ''id'')) (\<lambda>i.
         then_do (lift (str_concat ''variables/'' i)) (\<lambda>p.
         then_do (lift (self_bridge self ''post'')) (\<lambda>_.
         then_do (post srv (p @ ''/values'' @ force_suffix force) d) (\<lambda>r.
         lift (json r)))))))) arg)"

subsection \<open>The three decorated operations, uniformly\<close>

datatype bridge_op = Get string | Post string pyval | Delete string

text \<open>One run of the undecorated method body, and the decorated method.\<close>

fun attempt :: "transport \<Rightarrow> bridge_op \<Rightarrow> st \<Rightarrow> response res" where
  "attempt srv (Get path) = get_raw srv path"
| "attempt srv (Post path d) = post_raw srv path d"
| "attempt srv (Delete path) = delete_raw srv path"

fun perform :: "transport \<Rightarrow> bridge_op \<Rightarrow> st \<Rightarrow> response res" where
  "perform srv (Get path) = get srv path"
| "perform srv (Post path d) = post srv path d"
| "perform srv (Delete path) = delete srv path"

subsection \<open>Observing the transport\<close>

text \<open>
  The API-key exchange is the only call of \<^verbatim>\<open>requests.post\<close> without \<^verbatim>\<open>data\<close>; every
  other request is a resource call.
\<close>

definition is_auth_call :: "request \<Rightarrow> bool" where
  "is_auth_call rq \<longleftrightarrow> meth rq = POST \<and> data rq = None"

definition auth_calls :: "request list \<Rightarrow> nat" where
  "auth_calls log = length (filter is_auth_call log)"

definition resource_calls :: "request list \<Rightarrow> nat" where
  "resource_calls log = length (filter (\<lambda>rq. \<not> is_auth_call rq) log)"

definition token_header_of :: "request \<Rightarrow> pyval option" where
  "token_header_of rq = map_of (headers rq) ''X-AUTH-TOKEN''"

subsection \<open>Example transports and states\<close>

definition demo_state :: st where
  "demo_state =
     \<lparr>base_url = BASE_URL, token = PStr ''t0'', apikey = PStr ''k'',
      apikey_header = [(''X-UBIDOTS-APIKEY'', PStr ''k'')],
      token_header = Some [(''X-AUTH-TOKEN'', PStr ''t0'')], sent = []\<rparr>"

definition token_response :: "string \<Rightarrow> response" where
  "token_response t =
     \<lparr>status_code = 200, body_text = Some ''{}'', decoded = Some (PDict [(''token'', PStr t)])\<rparr>"

definition plain_response :: "int \<Rightarrow> string \<Rightarrow> response" where
  "plain_response code body = \<lparr>status_code = code, body_text = Some body, decoded = None\<rparr>"

definition json_response :: "pyval \<Rightarrow> response" where
  "json_response v = \<lparr>status_code = 200, body_text = Some ''{}'', decoded = Some v\<rparr>"

text \<open>A transport that hands out the token \<^verbatim>\<open>t1\<close> and answers every resource call with
  \<open>r\<close>.\<close>

definition fixed_transport :: "response \<Rightarrow> transport" where
  "fixed_transport r log rq = (if is_auth_call rq then token_response ''t1'' else r)"

text \<open>A transport that rejects the first resource call with 401 and answers the later ones
  with \<open>r\<close>.\<close>

definition expired_once_transport :: "response \<Rightarrow> transport" where
  "expired_once_transport r log rq =
     (if is_auth_call rq then token_response ''t1''
      else if resource_calls log = 0 then plain_response 401 ''expired'' else r)"

text \<open>A variable as the service describes it, and a variable object with its data source.\<close>

definition demo_variable_payload :: pyval where
  "demo_variable_payload =
     PDict [(''id'', PStr ''v1''), (''name'', PStr ''temperature''),
            (''datasource'', PDict [(''id'', PStr ''d1''),
                                    (''url'', PStr ''http://app.ubidots.com/api/datasources/d1'')])]"

definition demo_variable :: variable where
  "demo_variable =
     \<lparr>raw = [(''id'', PStr ''v1''), (''name'', PStr ''temperature'')],
      datasource = \<lparr>raw = [(''id'', PStr ''d1''), (''name'', PStr ''kitchen'')]\<rparr>\<rparr>"

section \<open>Properties of the bridge\<close>

subsection \<open>The decorators, unfolded\<close>

lemmas run_defs =
  get_raw_def post_raw_def delete_raw_def send_def initialize_def get_token_def
  post_with_apikey_def post_with_apikey_raw_def raise_informative_exception_def
  create_exception_object_def prepare_headers_def
  transform_a_list_of_dictionaries_to_a_dictionary_def dict_of_items_def get_custom_headers_def
  json_def is_auth_call_def auth_calls_def resource_calls_def
  demo_state_def token_response_def plain_response_def json_response_def
  fixed_transport_def expired_once_transport_def BASE_URL_def Let_def

lemma perform_unfold:
  "perform srv op =
     try_again (initialize srv) [403, 401] 2 (raise_informative_exception [400, 500] (attempt srv op))"
  by (cases op) (simp_all add: get_def post_def delete_def)

text \<open>With the default \<^verbatim>\<open>number_of_tries=2\<close> the loop is two attempts, each followed by
  \<^verbatim>\<open>self.initialize()\<close> when its status is in the list.\<close>

lemma try_again_twice:
  "try_again init codes 2 fn s =
     (case fn s of
        (Inl e, s1) \<Rightarrow> (Inl e, s1)
      | (Inr r1, s1) \<Rightarrow>
          if status_code r1 \<notin> set codes then (Inr r1, s1)
          else (case init s1 of
                  (Inl e, s2) \<Rightarrow> (Inl e, s2)
                | (Inr u, s2) \<Rightarrow>
                    (case fn s2 of
                       (Inl e, s3) \<Rightarrow> (Inl e, s3)
                     | (Inr r2, s3) \<Rightarrow>
                         if status_code r2 \<notin> set codes then (Inr r2, s3)
                         else (case init s3 of
                                 (Inl e, s4) \<Rightarrow> (Inl e, s4)
                               | (Inr u, s4) \<Rightarrow> (Inr r2, s4)))))"
  by (simp add: try_again_def numeral_2_eq_2 split: prod.splits sum.splits)

lemma classify_pass:
  "fn s = (Inr r, s1) \<Longrightarrow> status_code r \<notin> set codes \<Longrightarrow>
   raise_informative_exception codes fn s = (Inr r, s1)"
  by (simp add: raise_informative_exception_def)

lemma classify_raise:
  "fn s = (Inr r, s1) \<Longrightarrow> status_code r \<in> set codes \<Longrightarrow>
   raise_informative_exception codes fn s =
     (Inl (create_exception_object (status_code r)
            (case body_text r of Some t \<Rightarrow> t | None \<Rightarrow> ''No body found'')), s1)"
  by (simp add: raise_informative_exception_def)

lemma perform_first_raise:
  assumes "attempt srv op s = (Inr r, s1)" and "status_code r = 400 \<or> status_code r = 500"
  shows "perform srv op s =
           (Inl (create_exception_object (status_code r)
                  (case body_text r of Some t \<Rightarrow> t | None \<Rightarrow> ''No body found'')), s1)"
proof -
  have "raise_informative_exception [400, 500] (attempt srv op) s =
          (Inl (create_exception_object (status_code r)
                  (case body_text r of Some t \<Rightarrow> t | None \<Rightarrow> ''No body found'')), s1)"
    using assms by (intro classify_raise) auto
  then show ?thesis by (simp add: perform_unfold try_again_twice)
qed

subsection \<open>What each step hands to the transport\<close>

lemma attempt_sent:
  "attempt srv op s = (Inr r, s1) \<Longrightarrow>
   \<exists>rq. sent s1 = sent s @ [rq] \<and> \<not> is_auth_call rq \<and> r = srv (sent s) rq
      \<and> Some (headers rq) = map_option (\<lambda>th. prepare_headers [th] []) (token_header s)
      \<and> s1 = s\<lparr>sent := sent s @ [rq]\<rparr>"
  by (cases op)
     (auto simp: get_raw_def post_raw_def delete_raw_def send_def is_auth_call_def Let_def
           split: option.splits)

lemma attempt_total:
  "token_header s = Some th \<Longrightarrow> \<exists>r s1. attempt srv op s = (Inr r, s1)"
  by (cases op) (simp_all add: get_raw_def post_raw_def delete_raw_def send_def Let_def)

lemma initialize_sent:
  "initialize srv s = (x, s2) \<Longrightarrow>
   \<exists>a. sent s2 = sent s @ [a] \<and> is_auth_call a \<and> base_url s2 = base_url s"
  by (auto simp: initialize_def get_token_def post_with_apikey_def raise_informative_exception_def
        post_with_apikey_raw_def send_def is_auth_call_def Let_def
        split: prod.splits sum.splits if_splits)

lemma initialize_ok:
  "initialize srv s = (Inr u, s2) \<Longrightarrow>
   \<exists>a j. sent s2 = sent s @ [a] \<and> is_auth_call a
      \<and> json (srv (sent s) a) = Inr j \<and> py_getitem j ''token'' = Inr (token s2)
      \<and> token_header s2 = Some [(''X-AUTH-TOKEN'', token s2)]"
  by (auto simp: initialize_def get_token_def post_with_apikey_def raise_informative_exception_def
        post_with_apikey_raw_def send_def is_auth_call_def Let_def
        split: prod.splits sum.splits if_splits)

lemma initialize_keeps_sync:
  "token_header s = Some [(''X-AUTH-TOKEN'', token s)] \<Longrightarrow> initialize srv s = (x, s2) \<Longrightarrow>
   token_header s2 = Some [(''X-AUTH-TOKEN'', token s2)]"
  by (auto simp: initialize_def get_token_def post_with_apikey_def raise_informative_exception_def
        post_with_apikey_raw_def send_def Let_def
        split: prod.splits sum.splits if_splits)

lemma prepare_headers_token:
  "map_of (prepare_headers [[(''X-AUTH-TOKEN'', t)]] []) ''X-AUTH-TOKEN'' = Some t"
  by (simp add: prepare_headers_def transform_a_list_of_dictionaries_to_a_dictionary_def
        dict_of_items_def get_custom_headers_def)

text \<open>A bridge that has been constructed holds a token and the header made from it; the
  example state is such a bridge.\<close>

lemma ServerBridge_in_sync:
  "ServerBridge srv key log = (Inr u, s) \<Longrightarrow> token_header s = Some [(''X-AUTH-TOKEN'', token s)]"
  unfolding ServerBridge_def using initialize_ok by blast

lemma ServerBridge_demo:
  "ServerBridge (fixed_transport r) (PStr ''k'') [] =
     (Inr (), demo_state\<lparr>token := PStr ''t1'', token_header := Some [(''X-AUTH-TOKEN'', PStr ''t1'')],
        sent := [\<lparr>meth = POST, url = BASE_URL @ ''auth/token'',
                  headers = [(''X-UBIDOTS-APIKEY'', PStr ''k''),
                             (''content-type'', PStr ''application/json'')],
                  data = None\<rparr>]\<rparr>)"
  by (simp add: ServerBridge_def run_defs)

subsection \<open>Two rejections in a row\<close>

text \<open>
  C1, as stated, does not hold. When the service answers 401 to both attempts of
  \<^verbatim>\<open>get\<close>, the method raises nothing: \<^verbatim>\<open>raise_informative_exception\<close> is given the codes
  400 and 500 only, and \<^verbatim>\<open>try_again\<close> ends with \<^verbatim>\<open>return response\<close>. The loop also calls
  \<^verbatim>\<open>self.initialize()\<close> after the second attempt, so two API-key exchanges are made.
\<close>

theorem double_rejection_is_returned:
  "fst (get (fixed_transport (plain_response 401 ''denied'')) ''datasources'' demo_state)
     = Inr (plain_response 401 ''denied'')
   \<and> resource_calls (sent (snd (get (fixed_transport (plain_response 401 ''denied''))
        ''datasources'' demo_state))) = 2
   \<and> auth_calls (sent (snd (get (fixed_transport (plain_response 401 ''denied''))
        ''datasources'' demo_state))) = 2"
  by (simp add: get_def try_again_twice run_defs)

text \<open>
  C1, amended: for \<^verbatim>\<open>get\<close>, \<^verbatim>\<open>post\<close> and \<^verbatim>\<open>delete\<close>, when the first attempt and the retry are
  both answered with 401 or 403 and the API-key exchange succeeds whenever the bridge makes
  it, the operation raises no error and returns the second response, and exactly two resource
  calls (one retry) have been made.
\<close>

theorem double_rejection_one_retry:
  assumes "attempt srv op s = (Inr r1, s1)"
      and "status_code r1 = 401 \<or> status_code r1 = 403"
      and "initialize srv s1 = (Inr (), s2)"
      and "attempt srv op s2 = (Inr r2, s3)"
      and "status_code r2 = 401 \<or> status_code r2 = 403"
      and "initialize srv s3 = (Inr (), s4)"
  shows "perform srv op s = (Inr r2, s4)
       \<and> resource_calls (sent s4) = resource_calls (sent s) + 2"
proof -
  have c1: "raise_informative_exception [400, 500] (attempt srv op) s = (Inr r1, s1)"
    using assms(1,2) by (intro classify_pass) auto
  have c2: "raise_informative_exception [400, 500] (attempt srv op) s2 = (Inr r2, s3)"
    using assms(4,5) by (intro classify_pass) auto
  have run: "perform srv op s = (Inr r2, s4)"
    using assms(2,3,5,6) c1 c2 by (auto simp: perform_unfold try_again_twice)
  obtain rq1 where l1: "sent s1 = sent s @ [rq1]" "\<not> is_auth_call rq1"
    using attempt_sent[OF assms(1)] by blast
  obtain a where l2: "sent s2 = sent s1 @ [a]" "is_auth_call a"
    using initialize_sent[OF assms(3)] by blast
  obtain rq2 where l3: "sent s3 = sent s2 @ [rq2]" "\<not> is_auth_call rq2"
    using attempt_sent[OF assms(4)] by blast
  obtain a' where l4: "sent s4 = sent s3 @ [a']" "is_auth_call a'"
    using initialize_sent[OF assms(6)] by blast
  have "resource_calls (sent s4) = resource_calls (sent s) + 2"
    using l1 l2 l3 l4 by (simp add: resource_calls_def)
  then show ?thesis using run by simp
qed

theorem double_rejection_one_retry_witness:
  "fst (perform (fixed_transport (plain_response 403 ''denied'')) (Post ''datasources/'' (PDict []))
          demo_state) = Inr (plain_response 403 ''denied'')
   \<and> resource_calls (sent (snd (perform (fixed_transport (plain_response 403 ''denied''))
        (Post ''datasources/'' (PDict [])) demo_state))) = 2"
proof -
  let ?srv = "fixed_transport (plain_response 403 ''denied'')"
  let ?op = "Post ''datasources/'' (PDict [])"
  let ?s1 = "snd (attempt ?srv ?op demo_state)"
  let ?s2 = "snd (initialize ?srv ?s1)"
  let ?s3 = "snd (attempt ?srv ?op ?s2)"
  let ?s4 = "snd (initialize ?srv ?s3)"
  have h1: "attempt ?srv ?op demo_state = (Inr (plain_response 403 ''denied''), ?s1)"
    by (simp add: run_defs)
  have h2: "status_code (plain_response 403 ''denied'') = 401
            \<or> status_code (plain_response 403 ''denied'') = 403"
    by (simp add: plain_response_def)
  have h3: "initialize ?srv ?s1 = (Inr (), ?s2)"
    by (simp add: run_defs)
  have h4: "attempt ?srv ?op ?s2 = (Inr (plain_response 403 ''denied''), ?s3)"
    by (simp add: run_defs)
  have h6: "initialize ?srv ?s3 = (Inr (), ?s4)"
    by (simp add: run_defs)
  have s0: "resource_calls (sent demo_state) = 0"
    by (simp add: run_defs)
  show ?thesis
    using double_rejection_one_retry[OF h1 h2 h3 h4 h2 h6] s0 by simp
qed

subsection \<open>One rejection, then success\<close>

text \<open>
  C2: for \<^verbatim>\<open>get\<close>, \<^verbatim>\<open>post\<close> and \<^verbatim>\<open>delete\<close>, when the first attempt is answered with 401 (or
  403), the API-key exchange that follows succeeds, and the retry is answered with a 2xx
  status, the operation returns the second response, whose \<^verbatim>\<open>.json()\<close> is what the callers
  take from it; one API-key exchange and two resource calls have been added to the traffic.
\<close>

theorem retry_after_reauth_succeeds:
  assumes "attempt srv op s = (Inr r1, s1)"
      and "status_code r1 = 401 \<or> status_code r1 = 403"
      and "initialize srv s1 = (Inr (), s2)"
      and "attempt srv op s2 = (Inr r2, s3)"
      and "200 \<le> status_code r2" and "status_code r2 < 300"
  shows "perform srv op s = (Inr r2, s3)
       \<and> then_do (perform srv op) (\<lambda>r. lift (json r)) s = (json r2, s3)
       \<and> auth_calls (sent s3) = auth_calls (sent s) + 1
       \<and> resource_calls (sent s3) = resource_calls (sent s) + 2"
proof -
  have c1: "raise_informative_exception [400, 500] (attempt srv op) s = (Inr r1, s1)"
    using assms(1,2) by (intro classify_pass) auto
  have c2: "raise_informative_exception [400, 500] (attempt srv op) s2 = (Inr r2, s3)"
    using assms(4,5,6) by (intro classify_pass) auto
  have run: "perform srv op s = (Inr r2, s3)"
    using assms(2,3,5,6) c1 c2 by (auto simp: perform_unfold try_again_twice)
  obtain rq1 where l1: "sent s1 = sent s @ [rq1]" "\<not> is_auth_call rq1"
    using attempt_sent[OF assms(1)] by blast
  obtain a where l2: "sent s2 = sent s1 @ [a]" "is_auth_call a"
    using initialize_sent[OF assms(3)] by blast
  obtain rq2 where l3: "sent s3 = sent s2 @ [rq2]" "\<not> is_auth_call rq2"
    using attempt_sent[OF assms(4)] by blast
  have counts: "auth_calls (sent s3) = auth_calls (sent s) + 1"
               "resource_calls (sent s3) = resource_calls (sent s) + 2"
    using l1 l2 l3 by (simp_all add: auth_calls_def resource_calls_def)
  have dec: "then_do (perform srv op) (\<lambda>r. lift (json r)) s = (json r2, s3)"
    by (simp add: then_do_def run lift_def)
  show ?thesis using run dec counts by simp
qed

theorem retry_after_reauth_succeeds_witness:
  "fst (perform (expired_once_transport (json_response (PList []))) (Get ''datasources'') demo_state)
     = Inr (json_response (PList []))
   \<and> fst (then_do (perform (expired_once_transport (json_response (PList []))) (Get ''datasources''))
            (\<lambda>r. lift (json r)) demo_state) = Inr (PList [])
   \<and> auth_calls (sent (snd (perform (expired_once_transport (json_response (PList [])))
        (Get ''datasources'') demo_state))) = 1
   \<and> resource_calls (sent (snd (perform (expired_once_transport (json_response (PList [])))
        (Get ''datasources'') demo_state))) = 2"
proof -
  let ?srv = "expired_once_transport (json_response (PList []))"
  let ?op = "Get ''datasources''"
  let ?s1 = "snd (attempt ?srv ?op demo_state)"
  let ?s2 = "snd (initialize ?srv ?s1)"
  let ?s3 = "snd (attempt ?srv ?op ?s2)"
  have h1: "attempt ?srv ?op demo_state = (Inr (plain_response 401 ''expired''), ?s1)"
    by (simp add: run_defs)
  have h2: "status_code (plain_response 401 ''expired'') = 401
            \<or> status_code (plain_response 401 ''expired'') = 403"
    by (simp add: plain_response_def)
  have h3: "initialize ?srv ?s1 = (Inr (), ?s2)"
    by (simp add: run_defs)
  have h4: "attempt ?srv ?op ?s2 = (Inr (json_response (PList [])), ?s3)"
    by (simp add: run_defs)
  have h5: "200 \<le> status_code (json_response (PList []))"
    by (simp add: json_response_def)
  have h6: "status_code (json_response (PList [])) < 300"
    by (simp add: json_response_def)
  have s0: "auth_calls (sent demo_state) = 0" "resource_calls (sent demo_state) = 0"
    by (simp_all add: run_defs)
  note inst = retry_after_reauth_succeeds[OF h1 h2 h3 h4 h5 h6]
  show ?thesis using inst s0 by (simp add: json_def json_response_def)
qed

subsection \<open>Statuses outside the lists\<close>

text \<open>
  C6, as stated, does not hold. A 404 answer to \<^verbatim>\<open>get\<close> is in neither decorator's list:
  the method returns the response, and no \<^verbatim>\<open>UbidotsError\<close> with the body is raised.
\<close>

theorem not_found_is_not_raised:
  "fst (get (fixed_transport (plain_response 404 ''Not found'')) ''datasources'' demo_state)
     = Inr (plain_response 404 ''Not found'')
   \<and> fst (get (fixed_transport (plain_response 404 ''Not found'')) ''datasources'' demo_state)
     \<noteq> Inl (UbidotsError ''Not found'')"
  by (simp add: get_def try_again_twice run_defs)

text \<open>
  C6, amended: for \<^verbatim>\<open>get\<close>, \<^verbatim>\<open>post\<close> and \<^verbatim>\<open>delete\<close>, a response whose status is none of
  400, 500, 401 and 403, whether 2xx or not, is returned to the caller as it is after that
  single transport call, and the caller's \<^verbatim>\<open>.json()\<close> decodes its body; no error is raised.
\<close>

theorem unclassified_statuses_are_returned:
  assumes "attempt srv op s = (Inr r, s1)"
      and "status_code r \<notin> {400, 500, 401, 403}"
  shows "perform srv op s = (Inr r, s1)
       \<and> then_do (perform srv op) (\<lambda>r. lift (json r)) s = (json r, s1)"
proof -
  have "raise_informative_exception [400, 500] (attempt srv op) s = (Inr r, s1)"
    using assms by (intro classify_pass) auto
  then have run: "perform srv op s = (Inr r, s1)"
    using assms(2) by (simp add: perform_unfold try_again_twice)
  then show ?thesis by (simp add: then_do_def lift_def)
qed

theorem unclassified_statuses_are_returned_witness:
  "fst (perform (fixed_transport (plain_response 404 ''Not found'')) (Delete ''datasources/d1'')
          demo_state) = Inr (plain_response 404 ''Not found'')
   \<and> fst (then_do (perform (fixed_transport (json_response (PList []))) (Get ''datasources''))
            (\<lambda>r. lift (json r)) demo_state) = Inr (PList [])"
proof -
  let ?s1 = "snd (attempt (fixed_transport (plain_response 404 ''Not found''))
                    (Delete ''datasources/d1'') demo_state)"
  let ?s2 = "snd (attempt (fixed_transport (json_response (PList []))) (Get ''datasources'')
                    demo_state)"
  have a1: "attempt (fixed_transport (plain_response 404 ''Not found''))
              (Delete ''datasources/d1'') demo_state = (Inr (plain_response 404 ''Not found''), ?s1)"
    by (simp add: run_defs)
  have b1: "status_code (plain_response 404 ''Not found'') \<notin> {400, 500, 401, 403}"
    by (simp add: plain_response_def)
  have a2: "attempt (fixed_transport (json_response (PList []))) (Get ''datasources'')
              demo_state = (Inr (json_response (PList [])), ?s2)"
    by (simp add: run_defs)
  have b2: "status_code (json_response (PList [])) \<notin> {400, 500, 401, 403}"
    by (simp add: json_response_def)
  show ?thesis
    using unclassified_statuses_are_returned[OF a1 b1] unclassified_statuses_are_returned[OF a2 b2]
    by (simp add: json_def json_response_def)
qed

subsection \<open>The messages of the 400 and 500 errors\<close>

text \<open>
  C7: a 400 response that the bridge classifies raises \<^verbatim>\<open>UbidotsError400\<close> with the message
  \<^verbatim>\<open>"Your request is invalid:\n  "\<close> followed by the body, so the body is part of the
  message; a 500 response raises \<^verbatim>\<open>UbidotsError500\<close> with one fixed message, whatever the
  body. This holds for the error object, for the decorator with any list that holds the
  code, and for the first response of \<^verbatim>\<open>get\<close>, \<^verbatim>\<open>post\<close> and \<^verbatim>\<open>delete\<close>.
\<close>

theorem messages_of_400_and_500:
  "create_exception_object 400 body
     = UbidotsError400 (''Your request is invalid:'' @ [CHR 0x0A] @ ''  '' @ body)
   \<and> sublist body (message (create_exception_object 400 body))
   \<and> create_exception_object 500 body = UbidotsError500 ''An Internal Server Error Occurred.''
   \<and> (fn s = (Inr r, s1) \<and> status_code r = 400 \<and> 400 \<in> set codes \<and> body_text r = Some b \<longrightarrow>
        raise_informative_exception codes fn s
          = (Inl (UbidotsError400 (''Your request is invalid:'' @ [CHR 0x0A] @ ''  '' @ b)), s1))
   \<and> (fn s = (Inr r, s1) \<and> status_code r = 500 \<and> 500 \<in> set codes \<longrightarrow>
        raise_informative_exception codes fn s
          = (Inl (UbidotsError500 ''An Internal Server Error Occurred.''), s1))
   \<and> (attempt srv op s = (Inr r, s1) \<and> status_code r = 400 \<and> body_text r = Some b \<longrightarrow>
        perform srv op s
          = (Inl (UbidotsError400 (''Your request is invalid:'' @ [CHR 0x0A] @ ''  '' @ b)), s1))
   \<and> (attempt srv op s = (Inr r, s1) \<and> status_code r = 500 \<longrightarrow>
        perform srv op s = (Inl (UbidotsError500 ''An Internal Server Error Occurred.''), s1))"
proof -
  have m: "sublist body (''Your request is invalid:'' @ [CHR 0x0A] @ ''  '' @ body)"
    using sublist_appendI[of body "''Your request is invalid:'' @ [CHR 0x0A] @ ''  ''" "[]"]
    by simp
  have e4: "create_exception_object 400 body
     = UbidotsError400 (''Your request is invalid:'' @ [CHR 0x0A] @ ''  '' @ body)" for body
    by (simp add: create_exception_object_def)
  have e5: "create_exception_object 500 body = UbidotsError500 ''An Internal Server Error Occurred.''"
    for body
    by (simp add: create_exception_object_def)
  have d4: "fn s = (Inr r, s1) \<and> status_code r = 400 \<and> 400 \<in> set codes \<and> body_text r = Some b \<longrightarrow>
        raise_informative_exception codes fn s
          = (Inl (UbidotsError400 (''Your request is invalid:'' @ [CHR 0x0A] @ ''  '' @ b)), s1)"
    by (simp add: raise_informative_exception_def e4)
  have d5: "fn s = (Inr r, s1) \<and> status_code r = 500 \<and> 500 \<in> set codes \<longrightarrow>
        raise_informative_exception codes fn s
          = (Inl (UbidotsError500 ''An Internal Server Error Occurred.''), s1)"
    by (simp add: raise_informative_exception_def e5)
  have p4: "attempt srv op s = (Inr r, s1) \<and> status_code r = 400 \<and> body_text r = Some b \<longrightarrow>
        perform srv op s
          = (Inl (UbidotsError400 (''Your request is invalid:'' @ [CHR 0x0A] @ ''  '' @ b)), s1)"
    using perform_first_raise[of srv op s r s1] by (simp add: e4)
  have p5: "attempt srv op s = (Inr r, s1) \<and> status_code r = 500 \<longrightarrow>
        perform srv op s = (Inl (UbidotsError500 ''An Internal Server Error Occurred.''), s1)"
    using perform_first_raise[of srv op s r s1] by (simp add: e5)
  show ?thesis
    using m e4 e5 d4 d5 p4 p5 by simp
qed

theorem messages_of_400_and_500_witness:
  "fst (perform (fixed_transport (plain_response 400 ''bad field'')) (Post ''datasources/'' (PDict []))
          demo_state)
     = Inl (UbidotsError400 (''Your request is invalid:'' @ [CHR 0x0A] @ ''  bad field''))
   \<and> sublist ''bad field'' (''Your request is invalid:'' @ [CHR 0x0A] @ ''  bad field'')
   \<and> fst (perform (fixed_transport (plain_response 500 ''Traceback'')) (Get ''datasources'')
          demo_state)
     = Inl (UbidotsError500 ''An Internal Server Error Occurred.'')"
proof -
  let ?srv4 = "fixed_transport (plain_response 400 ''bad field'')"
  let ?op4 = "Post ''datasources/'' (PDict [])"
  let ?s4 = "snd (attempt ?srv4 ?op4 demo_state)"
  let ?srv5 = "fixed_transport (plain_response 500 ''Traceback'')"
  let ?op5 = "Get ''datasources''"
  let ?s5 = "snd (attempt ?srv5 ?op5 demo_state)"
  have h4: "attempt ?srv4 ?op4 demo_state = (Inr (plain_response 400 ''bad field''), ?s4)
            \<and> status_code (plain_response 400 ''bad field'') = 400
            \<and> body_text (plain_response 400 ''bad field'') = Some ''bad field''"
    by (simp add: run_defs)
  have h5: "attempt ?srv5 ?op5 demo_state = (Inr (plain_response 500 ''Traceback''), ?s5)
            \<and> status_code (plain_response 500 ''Traceback'') = 500"
    by (simp add: run_defs)
  note i4 = messages_of_400_and_500[of "''bad field''" "attempt ?srv4 ?op4" demo_state
              "plain_response 400 ''bad field''" ?s4 "[400, 500]" "''bad field''" ?srv4 ?op4]
  note i5 = messages_of_400_and_500[of "''Traceback''" "attempt ?srv5 ?op5" demo_state
              "plain_response 500 ''Traceback''" ?s5 "[400, 500]" "''Traceback''" ?srv5 ?op5]
  have r4: "perform ?srv4 ?op4 demo_state
     = (Inl (UbidotsError400 (''Your request is invalid:'' @ [CHR 0x0A] @ ''  '' @ ''bad field'')), ?s4)"
    using i4 h4 by blast
  have r5: "perform ?srv5 ?op5 demo_state
     = (Inl (UbidotsError500 ''An Internal Server Error Occurred.''), ?s5)"
    using i5 h5 by blast
  have sb: "sublist ''bad field'' (message (create_exception_object 400 ''bad field''))"
    using i4 by blast
  show ?thesis using r4 r5 sb by (simp add: create_exception_object_def)
qed

subsection \<open>The token a request carries\<close>

text \<open>The operations leave token and header in step.\<close>

lemma attempt_keeps_token:
  "attempt srv op s = (x, s1) \<Longrightarrow> token_header s1 = token_header s \<and> token s1 = token s"
  by (cases op)
     (auto simp: get_raw_def post_raw_def delete_raw_def send_def Let_def split: option.splits)

lemma classify_keeps_state:
  "raise_informative_exception codes fn s = (x, s1) \<Longrightarrow> \<exists>y. fn s = (y, s1)"
  by (auto simp: raise_informative_exception_def split: prod.splits sum.splits if_splits)

lemma perform_keeps_sync:
  assumes "token_header s = Some [(''X-AUTH-TOKEN'', token s)]"
  shows "token_header (snd (perform srv op s)) = Some [(''X-AUTH-TOKEN'', token (snd (perform srv op s)))]"
proof -
  let ?fn = "raise_informative_exception [400, 500] (attempt srv op)"
  have step: "token_header s' = Some [(''X-AUTH-TOKEN'', token s')] \<Longrightarrow> ?fn s' = (x, t) \<Longrightarrow>
              token_header t = Some [(''X-AUTH-TOKEN'', token t)]" for s' x t
    using classify_keeps_state attempt_keeps_token by metis
  obtain x1 s1 where f1: "?fn s = (x1, s1)" by (cases "?fn s")
  obtain y1 s2 where i1: "initialize srv s1 = (y1, s2)" by (cases "initialize srv s1")
  obtain x2 s3 where f2: "?fn s2 = (x2, s3)" by (cases "?fn s2")
  obtain y2 s4 where i2: "initialize srv s3 = (y2, s4)" by (cases "initialize srv s3")
  have k1: "token_header s1 = Some [(''X-AUTH-TOKEN'', token s1)]"
    using step[OF assms f1] .
  have k2: "token_header s2 = Some [(''X-AUTH-TOKEN'', token s2)]"
    using initialize_keeps_sync[OF k1 i1] .
  have k3: "token_header s3 = Some [(''X-AUTH-TOKEN'', token s3)]"
    using step[OF k2 f2] .
  have k4: "token_header s4 = Some [(''X-AUTH-TOKEN'', token s4)]"
    using initialize_keeps_sync[OF k3 i2] .
  have "snd (perform srv op s) \<in> {s1, s2, s3, s4}"
    using f1 i1 f2 i2
    by (auto simp: perform_unfold try_again_twice split: sum.splits)
  then show ?thesis using k1 k2 k3 k4 by auto
qed

text \<open>
  C9: every attempt of \<^verbatim>\<open>get\<close>, \<^verbatim>\<open>post\<close> and \<^verbatim>\<open>delete\<close>, and \<^verbatim>\<open>get_with_url\<close>, builds its
  headers from the \<^verbatim>\<open>_token_header\<close> the bridge holds at that moment, so on a bridge whose
  header was made from its token the request carries that token. When the first attempt is
  answered with 401 or 403 and the API-key exchange succeeds, the traffic of the operation
  starts with the first request, carrying the old token, the exchange, and the retry,
  carrying the token that the exchange returned and installed.
\<close>

theorem retry_carries_new_token:
  assumes "token_header s = Some [(''X-AUTH-TOKEN'', token s)]"
  shows "(\<exists>r rq. attempt srv op s = (Inr r, s\<lparr>sent := sent s @ [rq]\<rparr>)
              \<and> token_header_of rq = Some (token s))
       \<and> (\<exists>r rq. get_with_url srv (PStr u) s = (Inr r, s\<lparr>sent := sent s @ [rq]\<rparr>)
              \<and> token_header_of rq = Some (token s))
       \<and> (attempt srv op s = (Inr r1, s1) \<and> (status_code r1 = 401 \<or> status_code r1 = 403)
            \<and> initialize srv s1 = (Inr (), s2) \<longrightarrow>
          (\<exists>rq1 a rq2 rest j.
             sent (snd (perform srv op s)) = sent s @ [rq1, a, rq2] @ rest
           \<and> \<not> is_auth_call rq1 \<and> token_header_of rq1 = Some (token s)
           \<and> is_auth_call a \<and> json (srv (sent s @ [rq1]) a) = Inr j
           \<and> py_getitem j ''token'' = Inr (token s2)
           \<and> \<not> is_auth_call rq2 \<and> token_header_of rq2 = Some (token s2)))"
proof -
  have single: "\<exists>r rq. attempt srv op t = (Inr r, t\<lparr>sent := sent t @ [rq]\<rparr>)
                  \<and> \<not> is_auth_call rq \<and> token_header_of rq = Some (token t)"
    if sync: "token_header t = Some [(''X-AUTH-TOKEN'', token t)]" for t
  proof -
    obtain r t1 where a: "attempt srv op t = (Inr r, t1)"
      using attempt_total[OF sync] by blast
    obtain rq where l: "t1 = t\<lparr>sent := sent t @ [rq]\<rparr>" "\<not> is_auth_call rq"
        and hd: "Some (headers rq) = map_option (\<lambda>th. prepare_headers [th] []) (token_header t)"
      using attempt_sent[OF a] by blast
    have "token_header_of rq = Some (token t)"
      using hd sync by (simp add: token_header_of_def prepare_headers_token)
    then show ?thesis using a l by blast
  qed
  have direct: "\<exists>r rq. get_with_url srv (PStr u) s = (Inr r, s\<lparr>sent := sent s @ [rq]\<rparr>)
              \<and> token_header_of rq = Some (token s)"
  proof -
    let ?rq = "\<lparr>meth = GET, url = u, headers = prepare_headers [[(''X-AUTH-TOKEN'', token s)]] [],
                data = None\<rparr>"
    have "get_with_url srv (PStr u) s = (Inr (srv (sent s) ?rq), s\<lparr>sent := sent s @ [?rq]\<rparr>)"
      using assms by (simp add: get_with_url_def send_def Let_def)
    moreover have "token_header_of ?rq = Some (token s)"
      by (simp add: token_header_of_def prepare_headers_token)
    ultimately show ?thesis by blast
  qed
  have retry: "\<exists>rq1 a rq2 rest j.
             sent (snd (perform srv op s)) = sent s @ [rq1, a, rq2] @ rest
           \<and> \<not> is_auth_call rq1 \<and> token_header_of rq1 = Some (token s)
           \<and> is_auth_call a \<and> json (srv (sent s @ [rq1]) a) = Inr j
           \<and> py_getitem j ''token'' = Inr (token s2)
           \<and> \<not> is_auth_call rq2 \<and> token_header_of rq2 = Some (token s2)"
    if a1: "attempt srv op s = (Inr r1, s1)"
      and st: "status_code r1 = 401 \<or> status_code r1 = 403"
      and i1: "initialize srv s1 = (Inr (), s2)"
  proof -
    obtain r rq1 where a1': "attempt srv op s = (Inr r, s\<lparr>sent := sent s @ [rq1]\<rparr>)"
        and q1: "\<not> is_auth_call rq1" "token_header_of rq1 = Some (token s)"
      using single[OF assms] by blast
    have "s1 = s\<lparr>sent := sent s @ [rq1]\<rparr>" using a1 a1' by simp
    then have l1: "sent s1 = sent s @ [rq1]" by simp
    obtain a j where l2: "sent s2 = sent s1 @ [a]" "is_auth_call a"
        and tok: "json (srv (sent s1) a) = Inr j" "py_getitem j ''token'' = Inr (token s2)"
        and sync: "token_header s2 = Some [(''X-AUTH-TOKEN'', token s2)]"
      using initialize_ok[OF i1] by blast
    obtain r2 rq2 where a2: "attempt srv op s2 = (Inr r2, s2\<lparr>sent := sent s2 @ [rq2]\<rparr>)"
        and q2: "\<not> is_auth_call rq2" "token_header_of rq2 = Some (token s2)"
      using single[OF sync] by blast
    let ?s3 = "s2\<lparr>sent := sent s2 @ [rq2]\<rparr>"
    have c1: "raise_informative_exception [400, 500] (attempt srv op) s = (Inr r1, s1)"
      using a1 st by (intro classify_pass) auto
    have tail: "\<exists>rest. sent (snd (perform srv op s)) = sent ?s3 @ rest"
    proof (cases "initialize srv ?s3")
      case (Pair x s4)
      then obtain a' where "sent s4 = sent ?s3 @ [a']"
        using initialize_sent by blast
      then show ?thesis
        using c1 st i1 a2 Pair
        by (auto simp: perform_unfold try_again_twice raise_informative_exception_def
              split: sum.splits)
    qed
    then obtain rest where "sent (snd (perform srv op s)) = sent ?s3 @ rest" by blast
    then have whole: "sent (snd (perform srv op s)) = sent s @ [rq1, a, rq2] @ rest"
      using l1 l2 by simp
    have tok': "json (srv (sent s @ [rq1]) a) = Inr j"
      using tok(1) l1 by simp
    show ?thesis
      using whole q1 l2(2) tok' tok(2) q2 by blast
  qed
  show ?thesis
    using single[OF assms] direct retry by blast
qed

theorem retry_carries_new_token_witness:
  "token_header_of (sent (snd (perform (expired_once_transport (json_response (PList [])))
       (Get ''datasources'') demo_state)) ! 0) = Some (PStr ''t0'')
   \<and> token_header_of (sent (snd (perform (expired_once_transport (json_response (PList [])))
       (Get ''datasources'') demo_state)) ! 2) = Some (PStr ''t1'')"
proof -
  let ?srv = "expired_once_transport (json_response (PList []))"
  let ?op = "Get ''datasources''"
  let ?s1 = "snd (attempt ?srv ?op demo_state)"
  let ?s2 = "snd (initialize ?srv ?s1)"
  have h0: "token_header demo_state = Some [(''X-AUTH-TOKEN'', token demo_state)]"
    by (simp add: demo_state_def)
  have h1: "attempt ?srv ?op demo_state = (Inr (plain_response 401 ''expired''), ?s1)"
    by (simp add: run_defs)
  have h2: "status_code (plain_response 401 ''expired'') = 401
            \<or> status_code (plain_response 401 ''expired'') = 403"
    by (simp add: plain_response_def)
  have h3: "initialize ?srv ?s1 = (Inr (), ?s2)"
    by (simp add: run_defs)
  have t0: "token demo_state = PStr ''t0''" "sent demo_state = []"
    by (simp_all add: demo_state_def)
  have t1: "token ?s2 = PStr ''t1''"
    by (simp add: run_defs)
  note inst = retry_carries_new_token[OF h0, of ?srv ?op "[]" "plain_response 401 ''expired''" ?s1 ?s2]
  obtain rq1 a rq2 rest where
     "sent (snd (perform ?srv ?op demo_state)) = sent demo_state @ [rq1, a, rq2] @ rest"
     "token_header_of rq1 = Some (token demo_state)" "token_header_of rq2 = Some (token ?s2)"
    using inst h1 h2 h3 by blast
  then show ?thesis using t0 t1 by simp
qed

section \<open>Properties of the facade and the resources\<close>

subsection \<open>Fetching a data source by URL\<close>

text \<open>
  C3: the claim is that \<^verbatim>\<open>get_datasource(url=...)\<close> with a string \<^verbatim>\<open>url\<close> and no \<^verbatim>\<open>id\<close> does not
  raise and fetches that URL. The \<^verbatim>\<open>url\<close> branch tests \<^verbatim>\<open>isinstance(id, basestring)\<close>, and
  \<^verbatim>\<open>id\<close> is \<^verbatim>\<open>None\<close> there: for every non-empty URL string the method raises
  \<^verbatim>\<open>UbidotsInvalidInputError\<close> and the transport is not called.
\<close>

theorem get_datasource_by_url_is_rejected:
  "ApiClient_get_datasource srv PNone (PStr (c # cs)) s =
     (Inl (UbidotsInvalidInputError
             (''Argument '' @ [CHR 0x22] @ ''url'' @ [CHR 0x22] @ '' must be a string.'')), s)"
  by (simp add: ApiClient_get_datasource_def)

text \<open>
  C4: the claim is that a \<^verbatim>\<open>Variable\<close> built from a payload whose \<^verbatim>\<open>datasource\<close> field holds
  a URL, with no data source supplied, fetches that URL once. \<^verbatim>\<open>_get_datasource\<close> calls
  \<^verbatim>\<open>get_datasource(url=self.datasource['url'])\<close>, which raises as above: the construction
  fails and nothing is fetched. A payload whose \<^verbatim>\<open>datasource\<close> field is the URL string itself
  fails at the subscript.
\<close>

theorem variable_construction_is_rejected:
  "Variable srv demo_variable_payload None s =
     (Inl (UbidotsInvalidInputError
             (''Argument '' @ [CHR 0x22] @ ''url'' @ [CHR 0x22] @ '' must be a string.'')), s)
   \<and> sent (snd (Variable srv demo_variable_payload None s)) = sent s
   \<and> Variable srv (PDict [(''id'', PStr ''v1''),
                           (''datasource'', PStr ''http://app.ubidots.com/api/datasources/d1'')])
        None s = (Inl TypeError, s)"
  by (simp add: Variable_def Variable_get_datasource_def ApiClient_get_datasource_def
        ApiObject_def then_do_def lift_def self_api_def self_method_def getattr_def
        demo_variable_payload_def)

subsection \<open>Listing the variables\<close>

text \<open>
  C5: the claim is that \<^verbatim>\<open>ApiClient.get_variables\<close> returns one \<^verbatim>\<open>Variable\<close> per element of a
  decoded list. The method calls \<^verbatim>\<open>self.transform_to_variables_objects\<close>, a name the client
  does not have (the method is \<^verbatim>\<open>_transform_to_variable_objects\<close>): whatever the transport
  answers, the call raises, and on a 200 response with an empty list it raises
  \<^verbatim>\<open>AttributeError\<close>.
\<close>

theorem get_variables_always_raises:
  "(\<exists>e. fst (ApiClient_get_variables srv s) = Inl e)
   \<and> fst (ApiClient_get_variables (fixed_transport (json_response (PList []))) demo_state)
       = Inl (AttributeError ''transform_to_variables_objects'')"
proof -
  have g: "\<exists>e. fst (ApiClient_get_variables srv s) = Inl e" for srv s
    by (cases "get srv ''variables'' s")
       (auto simp: ApiClient_get_variables_def then_do_def lift_def ApiClient_attributes_def
             split: sum.splits)
  have c: "fst (ApiClient_get_variables (fixed_transport (json_response (PList []))) demo_state)
       = Inl (AttributeError ''transform_to_variables_objects'')"
    by (simp add: ApiClient_get_variables_def then_do_def lift_def ApiClient_attributes_def
          get_def try_again_twice run_defs)
  show ?thesis using g c by blast
qed

section \<open>Properties of the input validator\<close>

subsection \<open>What the validator rejects\<close>

text \<open>An argument of the wrong type, a dictionary without a required key and a list of
  dictionaries one of which lacks a required key are rejected with
  \<^verbatim>\<open>UbidotsInvalidInputError\<close>, in the state the call started in.\<close>

lemma validate_input_rejects_wrong_type:
  "\<not> isinstance arg ty \<Longrightarrow>
   validate_input ty ks fn arg s =
     (Inl (UbidotsInvalidInputError (''Invalid argument type. Required: '' @ str_of_type ty)), s)"
  by (simp add: validate_input_def validate_args_def)

lemma check_keys_dict_error:
  "check_keys ks (PDict d) = Inl e \<Longrightarrow> \<exists>k\<in>set ks. k \<notin> fst ` set d \<and> e = missing_key k"
  by (induction ks) (auto split: if_splits)

lemma check_keys_dict_missing:
  "k \<in> set ks \<Longrightarrow> k \<notin> fst ` set d \<Longrightarrow> \<exists>e. check_keys ks (PDict d) = Inl e"
  by (induction ks) auto

lemma map_check_dicts_missing:
  assumes "\<forall>x\<in>set xs. \<exists>dx. x = PDict dx"
      and "PDict d \<in> set xs" and "k \<in> set ks" and "k \<notin> fst ` set d"
  shows "\<exists>k'\<in>set ks. map_check (check_keys ks) xs = Inl (missing_key k')"
  using assms
proof (induction xs)
  case Nil
  then show ?case by simp
next
  case (Cons x xs)
  from Cons.prems(1) obtain dx where x: "x = PDict dx" by auto
  show ?case
  proof (cases "check_keys ks x")
    case (Inl e)
    then show ?thesis using check_keys_dict_error[of ks dx e] x by auto
  next
    case (Inr u)
    then have "PDict d \<noteq> x"
      using check_keys_dict_missing[OF Cons.prems(3,4)] by auto
    then have "PDict d \<in> set xs" using Cons.prems(2) by simp
    then show ?thesis using Cons.IH Cons.prems Inr by simp
  qed
qed

lemma validate_input_rejects_missing_key:
  assumes "k \<in> set ks" and "k \<notin> fst ` set d"
  shows "\<exists>k'\<in>set ks. validate_input Dict_t ks fn (PDict d) s = (Inl (missing_key k'), s)"
proof -
  obtain e where e: "check_keys ks (PDict d) = Inl e"
    using check_keys_dict_missing[OF assms] by blast
  then obtain k' where "k' \<in> set ks" "e = missing_key k'"
    using check_keys_dict_error by blast
  then show ?thesis using e by (auto simp: validate_input_def validate_args_def)
qed

lemma validate_input_rejects_missing_key_in_list:
  assumes "\<forall>x\<in>set xs. \<exists>dx. x = PDict dx"
      and "PDict d \<in> set xs" and "k \<in> set ks" and "k \<notin> fst ` set d"
  shows "\<exists>k'\<in>set ks. validate_input List_t ks fn (PList xs) s = (Inl (missing_key k'), s)"
  using map_check_dicts_missing[OF assms]
  by (auto simp: validate_input_def validate_args_def)

lemma sublist_variable: "sublist ''variable'' ''variable value''"
  using sublist_appendI[of "''variable''" "[]" "'' value''"] by simp

lemma sublist_value: "sublist ''value'' ''variable value''"
  using sublist_appendI[of "''value''" "''variable ''" "[]"] by simp

text \<open>
  C8: the claim is that a first argument that is not of the declared shape, or that lacks a
  required key in the mapping or in an element of the sequence, raises
  \<^verbatim>\<open>UbidotsInvalidInputError\<close> before any transport call. The docstring of
  \<^verbatim>\<open>validate_input\<close> promises a list of dicts after validation, but the elements of a list are
  only tested with \<^verbatim>\<open>key not in obj\<close>. \<^verbatim>\<open>save_collection([5, {}])\<close> raises \<^verbatim>\<open>TypeError\<close>, although
  the second element lacks both keys; \<^verbatim>\<open>save_collection(["variable value"])\<close> passes the
  validator, since both keys are substrings of the element, and the payload is posted.
\<close>

theorem list_elements_are_not_checked_to_be_mappings:
  "ApiClient_save_collection srv force (PList [PInt 5, PDict []]) s = (Inl TypeError, s)
   \<and> validate_args List_t [''variable'', ''value''] (PList [PStr ''variable value'']) = Inr ()
   \<and> resource_calls (sent (snd (ApiClient_save_collection (fixed_transport (json_response (PList [])))
        False (PList [PStr ''variable value'']) demo_state))) = 1"
  by (simp add: ApiClient_save_collection_def validate_input_def validate_args_def
        sublist_variable sublist_value then_do_def lift_def force_suffix_def
        post_def try_again_twice run_defs)

subsection \<open>The timestamp lookup of \<^verbatim>\<open>save_values\<close>\<close>

lemma map_check_all: "map_check f xs = Inr u \<Longrightarrow> e \<in> set xs \<Longrightarrow> f e = Inr ()"
  by (induction xs) (auto split: sum.splits)

lemma check_keys_present: "check_keys ks obj = Inr u \<Longrightarrow> k \<in> set ks \<Longrightarrow> py_in k obj = Inr True"
  by (induction ks) (auto split: sum.splits if_splits)

lemma getitem_no_key_error:
  "py_in k e = Inr True \<Longrightarrow>
   py_getitem e k \<noteq> Inl (KeyError k') \<and> (\<forall>kvs. e = PDict kvs \<longrightarrow> (\<exists>v. py_getitem e k = Inr v))"
  by (cases e) (auto simp: map_of_eq_None_iff split: option.splits)

lemma all_timestamps_no_key_error:
  "\<forall>e\<in>set es. \<forall>k. py_getitem e ''timestamp'' \<noteq> Inl (KeyError k) \<Longrightarrow>
   all_timestamps_int es \<noteq> Inl (KeyError k')"
  by (induction es) (auto split: sum.splits)

text \<open>On a validated list no lookup raises \<^verbatim>\<open>KeyError\<close>, and on the elements that are
  dictionaries the lookup yields a value.\<close>

lemma validated_lookup_no_key_error:
  assumes "validate_args List_t [''key'', ''timestamp''] d = Inr ()"
  shows "\<exists>es. d = PList es
         \<and> (\<forall>e\<in>set es. (\<forall>k. py_getitem e ''timestamp'' \<noteq> Inl (KeyError k))
                 \<and> (\<forall>kvs. e = PDict kvs \<longrightarrow> (\<exists>v. py_getitem e ''timestamp'' = Inr v)))
         \<and> (\<forall>k. all_timestamps_int es \<noteq> Inl (KeyError k))"
proof -
  obtain es where d: "d = PList es"
    using assms by (cases d) (auto simp: validate_args_def)
  have mc: "map_check (check_keys [''key'', ''timestamp'']) es = Inr ()"
    using assms d by (simp add: validate_args_def)
  have el: "(\<forall>k. py_getitem e ''timestamp'' \<noteq> Inl (KeyError k))
            \<and> (\<forall>kvs. e = PDict kvs \<longrightarrow> (\<exists>v. py_getitem e ''timestamp'' = Inr v))"
    if "e \<in> set es" for e
  proof -
    have "check_keys [''key'', ''timestamp''] e = Inr ()"
      using map_check_all[OF mc that] .
    then have "py_in ''timestamp'' e = Inr True"
      by (rule check_keys_present) simp
    then show ?thesis using getitem_no_key_error by blast
  qed
  then have "\<forall>k. all_timestamps_int es \<noteq> Inl (KeyError k)"
    using all_timestamps_no_key_error by blast
  then show ?thesis using d el by blast
qed

lemma sublist_key: "sublist ''key'' ''key timestamp''"
  using sublist_appendI[of "''key''" "[]" "'' timestamp''"] by simp

lemma sublist_timestamp: "sublist ''timestamp'' ''key timestamp''"
  using sublist_appendI[of "''timestamp''" "''key ''" "[]"] by simp

text \<open>
  C10: the claim is that on a list that has passed the validator of \<^verbatim>\<open>save_values\<close> the
  lookup \<^verbatim>\<open>e['timestamp']\<close> is total, as the docstring of \<^verbatim>\<open>validate_input\<close> promises (after
  validation the data is a list of dicts that have the keys). The validator tests the
  elements with \<^verbatim>\<open>key not in obj\<close> only: \<^verbatim>\<open>save_values(['key timestamp'])\<close> passes it, since
  both keys are substrings of the element, and the lookup on that element raises
  \<^verbatim>\<open>TypeError\<close>, which ends the call before any request is sent.
\<close>

theorem validated_timestamp_lookup_can_raise:
  "validate_args List_t [''key'', ''timestamp''] (PList [PStr ''key timestamp'']) = Inr ()
   \<and> py_getitem (PStr ''key timestamp'') ''timestamp'' = Inl TypeError
   \<and> Variable_save_values srv demo_variable force (PList [PStr ''key timestamp'']) s
       = (Inl TypeError, s)"
  by (simp add: Variable_save_values_def validate_input_def validate_args_def
        sublist_key sublist_timestamp then_do_def lift_def self_method_def demo_variable_def)

end
